theory Spec2Isabelle
  imports Complex_Main
begin

section \<open>RandomAffine: a shallow embedding of \<^verbatim>\<open>random_affine.py\<close>\<close>

text \<open>
  Intensities, scale factors and angles are Python and NumPy floats in the source; the
  embedding reads them as real numbers, so rounding is not part of the model. Every
  \<^verbatim>\<open>raise\<close> and failed \<^verbatim>\<open>assert\<close> of the source is a value of \<open>error\<close>.
\<close>

datatype error = IndexError | ValueError | AssertionError | ShapeError | LibraryError

type_synonym array2 = "real list list"
type_synonym array3 = "real list list list"

subsection \<open>Border statistics: \<^verbatim>\<open>get_borders_mean\<close>\<close>

text \<open>
  \<^verbatim>\<open>array.mean()\<close>. NumPy returns NaN on an empty array; the source only takes the mean
  of \<open>borders\<close>, which is never empty once the eight slices exist, and of \<open>values\<close>
  after \<^verbatim>\<open>values.any()\<close>, which is never empty either.
\<close>

definition np_mean :: "real list \<Rightarrow> real" where
  "np_mean xs = sum_list xs / real (length xs)"

text \<open>\<^verbatim>\<open>border.flatten()\<close> of a two-dimensional slice, in row-major order.\<close>

definition flatten :: "array2 \<Rightarrow> real list" where
  "flatten border = concat border"

text \<open>
  The tuple of eight slices in lines 187 to 196, in the order of the source, on the array
  view of the image (a list of planes, each a list of rows). Indexing an axis of length 0
  raises \<^verbatim>\<open>IndexError\<close>. The first four entries are \<^verbatim>\<open>array[0]\<close>, \<^verbatim>\<open>array[-1]\<close>,
  \<^verbatim>\<open>array[0, :, :]\<close> and \<^verbatim>\<open>array[-1, :, :]\<close>: the two faces of axis 0, each written twice.
\<close>

definition border_slabs :: "array3 \<Rightarrow> error + array2 list" where
  "border_slabs array =
     (if array = [] \<or> [] \<in> set array \<or> [] \<in> set (concat array) then Inl IndexError
      else Inr [hd array, last array,
                hd array, last array,
                map hd array, map last array,
                map (map hd) array, map (map last) array])"

text \<open>
  \<^verbatim>\<open>np.array\<close> of the tuple (line 187). It stacks slices of one shape and raises
  \<^verbatim>\<open>ValueError\<close> on slices that differ in shape. (That is NumPy from 1.24 on. Older
  versions raise as well when the slices agree in their first dimension, and build an
  array of the eight slice objects when they do not.) The slices of a view of shape
  (n0, n1, n2) have the shapes (n1, n2), (n0, n2) and (n0, n1): they are of one shape
  exactly when the view is a cube. The shape of a slice is read off the lengths of its
  rows.
\<close>

definition np_array_of :: "array2 list \<Rightarrow> error + array2 list" where
  "np_array_of slices =
     (if list_all (\<lambda>s. map length s = map length (hd slices)) slices then Inr slices
      else Inl ValueError)"

text \<open>
  Lines 187 to 197: the tuple, \<^verbatim>\<open>np.array\<close> of it, and
  \<^verbatim>\<open>np.hstack([border.flatten() for border in borders])\<close>, the slices flattened and
  joined in order.
\<close>

definition get_borders :: "array3 \<Rightarrow> error + real list" where
  "get_borders array =
     (case border_slabs array of
        Inl e \<Rightarrow> Inl e
      | Inr slices \<Rightarrow>
          (case np_array_of slices of
             Inl e \<Rightarrow> Inl e
           | Inr borders \<Rightarrow> Inr (concat (map flatten borders))))"

text \<open>
  \<^verbatim>\<open>get_borders_mean(image, filter_otsu)\<close>. The image enters as its array view, the only
  part of it the function reads. The threshold of \<^verbatim>\<open>sitk.OtsuThresholdImageFilter\<close> is
  computed outside the repository: \<open>otsu\<close> is that computation, from the border values to
  the threshold, or to the error the filter raises; nothing in the function catches it.
  \<^verbatim>\<open>values.any()\<close> is true when some element of \<open>values\<close> is not zero.
\<close>

definition get_borders_mean ::
  "(real list \<Rightarrow> error + real) \<Rightarrow> array3 \<Rightarrow> bool \<Rightarrow> error + real" where
  "get_borders_mean otsu array filter_otsu =
     (case get_borders array of
        Inl e \<Rightarrow> Inl e
      | Inr borders \<Rightarrow>
          if \<not> filter_otsu then Inr (np_mean borders)
          else
            (case otsu borders of
               Inl e \<Rightarrow> Inl e
             | Inr threshold \<Rightarrow>
                 let values = filter (\<lambda>v. v < threshold) borders
                 in if list_ex (\<lambda>v. v \<noteq> 0) values then Inr (np_mean values)
                    else Inr (np_mean borders)))"

text \<open>
  The border set in the words of the specification: six face slabs, the slices at index 0
  and at the last index along each of the three axes, each face once.
\<close>

definition six_faces :: "array3 \<Rightarrow> array2 list" where
  "six_faces array =
     [hd array, last array,
      map hd array, map last array,
      map (map hd) array, map (map last) array]"

definition spec_border_mean :: "array3 \<Rightarrow> real" where
  "spec_border_mean array = np_mean (concat (map flatten (six_faces array)))"

text \<open>A 3x3x3 volume whose first plane along axis 0 holds \<open>a\<close> and the rest \<open>b\<close>.\<close>

definition plane3 :: "real \<Rightarrow> array2" where
  "plane3 a = [[a, a, a], [a, a, a], [a, a, a]]"

definition volume3 :: "real \<Rightarrow> real \<Rightarrow> array3" where
  "volume3 a b = [plane3 a, plane3 b, plane3 b]"

text \<open>A view of shape (3, 3, 4), three planes of three rows of four cells, all \<open>a\<close>.\<close>

definition view334 :: "real \<Rightarrow> array3" where
  "view334 a = replicate 3 (replicate 3 [a, a, a, a])"


subsection \<open>Parameter sampling: \<^verbatim>\<open>get_params\<close>\<close>

text \<open>
  The random source of \<^verbatim>\<open>torch\<close> is global state. It enters as the sequence of unit
  draws still to come: \<^verbatim>\<open>torch.FloatTensor(n).uniform_(a, b)\<close> takes the next \<open>n\<close> of
  them, maps each draw \<open>u\<close> to \<open>a + u * (b - a)\<close>, and leaves the rest. (The argument
  check of \<^verbatim>\<open>uniform_\<close> itself belongs to the library and is not modelled.)
\<close>

type_synonym generator = "nat \<Rightarrow> real"

definition uniform_inplace :: "nat \<Rightarrow> real \<Rightarrow> real \<Rightarrow> generator \<Rightarrow> real list \<times> generator" where
  "uniform_inplace n a b g = (map (\<lambda>i. a + g i * (b - a)) [0..<n], \<lambda>i. g (i + n))"

text \<open>\<^verbatim>\<open>tensor.fill_(value)\<close>: every element becomes \<open>value\<close>.\<close>

definition fill_inplace :: "real list \<Rightarrow> real \<Rightarrow> real list" where
  "fill_inplace tensor v = map (\<lambda>_. v) tensor"

definition get_params ::
  "real \<times> real \<Rightarrow> real \<times> real \<Rightarrow> bool \<Rightarrow> generator \<Rightarrow> (real list \<times> real list) \<times> generator" where
  "get_params scales degrees isotropic g =
     (let (scaling_params, g1) = uniform_inplace 3 (fst scales) (snd scales) g;
          scaling_params =
            (if isotropic then fill_inplace scaling_params (scaling_params ! 0) else scaling_params);
          (rotation_params, g2) = uniform_inplace 3 (fst degrees) (snd degrees) g1
      in ((scaling_params, rotation_params), g2))"

subsection \<open>The geometric transforms\<close>

text \<open>
  The transform objects are SimpleITK's. A record holds what the source sets and what the
  library's constructor leaves at its default: \<^verbatim>\<open>sitk.ScaleTransform(3)\<close> has scale
  (1, 1, 1) and center (0, 0, 0); \<^verbatim>\<open>sitk.Euler3DTransform()\<close> has angles (0, 0, 0),
  center (0, 0, 0) and no translation. Nothing in the source calls \<^verbatim>\<open>SetCenter\<close>.
\<close>

type_synonym vec3 = "real \<times> real \<times> real"

record ScaleTransform =
  scale :: vec3
  scale_center :: vec3

record Euler3DTransform =
  rotation :: vec3
  rotation_center :: vec3

definition new_ScaleTransform :: ScaleTransform where
  "new_ScaleTransform = \<lparr>scale = (1, 1, 1), scale_center = (0, 0, 0)\<rparr>"

definition new_Euler3DTransform :: Euler3DTransform where
  "new_Euler3DTransform = \<lparr>rotation = (0, 0, 0), rotation_center = (0, 0, 0)\<rparr>"

text \<open>
  \<^verbatim>\<open>transform.SetScale(v)\<close> and \<^verbatim>\<open>transform.SetRotation(*v)\<close> take three numbers; any
  other count is refused by the library.
\<close>

definition SetScale :: "real list \<Rightarrow> ScaleTransform \<Rightarrow> error + ScaleTransform" where
  "SetScale v t =
     (case v of [s1, s2, s3] \<Rightarrow> Inr (t\<lparr>scale := (s1, s2, s3)\<rparr>) | _ \<Rightarrow> Inl LibraryError)"

definition SetRotation :: "real list \<Rightarrow> Euler3DTransform \<Rightarrow> error + Euler3DTransform" where
  "SetRotation v t =
     (case v of [a1, a2, a3] \<Rightarrow> Inr (t\<lparr>rotation := (a1, a2, a3)\<rparr>) | _ \<Rightarrow> Inl LibraryError)"

text \<open>
  \<^verbatim>\<open>get_scaling_transform\<close>: \<^verbatim>\<open>1 / np.array(scaling_params)\<close>, element by element. (NumPy
  gives \<open>inf\<close> for a zero parameter where HOL gives 0; the theorems on it assume
  parameters that are not zero.)
\<close>

definition get_scaling_transform :: "real list \<Rightarrow> error + ScaleTransform" where
  "get_scaling_transform scaling_params =
     (let transform = new_ScaleTransform;
          scaling_params = map (\<lambda>s. 1 / s) scaling_params
      in SetScale scaling_params transform)"

definition radians :: "real \<Rightarrow> real" where
  "radians d = d * pi / 180"

definition get_rotation_transform :: "real list \<Rightarrow> error + Euler3DTransform" where
  "get_rotation_transform degrees =
     (let transform = new_Euler3DTransform;
          rads = map radians degrees
      in SetRotation rads transform)"

text \<open>
  The composite of lines 158 to 160: \<^verbatim>\<open>AddTransform(scaling_transform)\<close>, then
  \<^verbatim>\<open>AddTransform(rotation_transform)\<close>.
\<close>

record CompositeTransform =
  scaling_transform :: ScaleTransform
  rotation_transform :: Euler3DTransform

definition build_transform :: "real list \<Rightarrow> real list \<Rightarrow> error + CompositeTransform" where
  "build_transform scaling_params rotation_params =
     (case get_scaling_transform scaling_params of
        Inl e \<Rightarrow> Inl e
      | Inr scaling \<Rightarrow>
          (case get_rotation_transform rotation_params of
             Inl e \<Rightarrow> Inl e
           | Inr rotating \<Rightarrow>
               Inr \<lparr>scaling_transform = scaling, rotation_transform = rotating\<rparr>))"

text \<open>
  How the library maps a physical point. A scale transform multiplies the offset from its
  center by the scale, axis by axis. An Euler transform rotates the offset from its center
  by the angles about the x, y and z axes, composed as \<open>R\<^sub>z R\<^sub>x R\<^sub>y\<close> (the library's
  default order). A composite applies the transform added last first.
\<close>

definition scale_point :: "ScaleTransform \<Rightarrow> vec3 \<Rightarrow> vec3" where
  "scale_point t p =
     (let (s1, s2, s3) = scale t; (c1, c2, c3) = scale_center t; (x, y, z) = p
      in ((x - c1) * s1 + c1, (y - c2) * s2 + c2, (z - c3) * s3 + c3))"

definition rot_x :: "real \<Rightarrow> vec3 \<Rightarrow> vec3" where
  "rot_x a p = (let (x, y, z) = p in (x, cos a * y - sin a * z, sin a * y + cos a * z))"

definition rot_y :: "real \<Rightarrow> vec3 \<Rightarrow> vec3" where
  "rot_y a p = (let (x, y, z) = p in (cos a * x + sin a * z, y, cos a * z - sin a * x))"

definition rot_z :: "real \<Rightarrow> vec3 \<Rightarrow> vec3" where
  "rot_z a p = (let (x, y, z) = p in (cos a * x - sin a * y, sin a * x + cos a * y, z))"

definition rotate_point :: "Euler3DTransform \<Rightarrow> vec3 \<Rightarrow> vec3" where
  "rotate_point t p =
     (let (a1, a2, a3) = rotation t; (c1, c2, c3) = rotation_center t; (x, y, z) = p;
          (u, v, w) = rot_z a3 (rot_x a1 (rot_y a2 (x - c1, y - c2, z - c3)))
      in (u + c1, v + c2, w + c3))"

definition TransformPoint :: "CompositeTransform \<Rightarrow> vec3 \<Rightarrow> vec3" where
  "TransformPoint t p = scale_point (scaling_transform t) (rotate_point (rotation_transform t) p)"

text \<open>
  The center of a volume in the words of the specification: the physical point of the
  middle of the grid, from the volume's shape and its affine map (a 3x3 matrix, by rows,
  and an offset).
\<close>

type_synonym affine = "(vec3 \<times> vec3 \<times> vec3) \<times> vec3"

definition dot :: "vec3 \<Rightarrow> vec3 \<Rightarrow> real" where
  "dot r p = (let (a, b, c) = r; (x, y, z) = p in a * x + b * y + c * z)"

definition spec_volume_center :: "nat \<times> nat \<times> nat \<Rightarrow> affine \<Rightarrow> vec3" where
  "spec_volume_center shape A =
     (let (n1, n2, n3) = shape; ((r1, r2, r3), (t1, t2, t3)) = A;
          i = ((real n1 - 1) / 2, (real n2 - 1) / 2, (real n3 - 1) / 2)
      in (dot r1 i + t1, dot r2 i + t2, dot r3 i + t3))"

definition identity_affine :: affine where
  "identity_affine = (((1, 0, 0), (0, 1, 0), (0, 0, 1)), (0, 0, 0))"

subsection \<open>Construction: \<^verbatim>\<open>__init__\<close> and \<^verbatim>\<open>parse_default_value\<close>\<close>

text \<open>
  \<^verbatim>\<open>Interpolation\<close> is an enumeration declared outside this file; these are the members
  the file names. \<open>pad_value\<close> is \<^verbatim>\<open>Union[str, float]\<close> and \<open>range_arg\<close> is
  \<^verbatim>\<open>TypeRangeFloat\<close>, a number or a pair of numbers.
\<close>

datatype Interpolation = NEAREST | LINEAR | BSPLINE

datatype pad_value = Number real | Str string

datatype range_arg = Single real | Range real real

text \<open>
  The base class \<^verbatim>\<open>RandomTransform\<close> is not part of the file: its constructor and its
  methods \<^verbatim>\<open>parse_degrees\<close> and \<^verbatim>\<open>parse_interpolation\<close> are parameters, each free to
  return a value or to raise.
\<close>

record 'b base_class =
  base_init :: "real \<Rightarrow> int option \<Rightarrow> error + 'b"
  parse_degrees :: "range_arg \<Rightarrow> error + real \<times> real"
  parse_interpolation :: "Interpolation \<Rightarrow> error + Interpolation"

record 'b RandomAffine =
  self_base :: 'b
  self_scales :: "real \<times> real"
  self_degrees :: "real \<times> real"
  self_isotropic :: bool
  self_default_pad_value :: pad_value
  self_interpolation :: Interpolation

definition parse_default_value :: "pad_value \<Rightarrow> error + pad_value" where
  "parse_default_value val =
     (case val of
        Number n \<Rightarrow> Inr val
      | Str s \<Rightarrow>
          if s \<in> set [''minimum'', ''otsu'', ''mean''] then Inr val else Inl ValueError)"

definition RandomAffine_init ::
  "'b base_class \<Rightarrow> real \<times> real \<Rightarrow> range_arg \<Rightarrow> bool \<Rightarrow> pad_value \<Rightarrow> Interpolation \<Rightarrow>
   real \<Rightarrow> int option \<Rightarrow> error + 'b RandomAffine" where
  "RandomAffine_init super scales degrees isotropic default_pad_value image_interpolation p seed =
     (case base_init super p seed of
        Inl e \<Rightarrow> Inl e
      | Inr b \<Rightarrow>
     (case parse_degrees super degrees of
        Inl e \<Rightarrow> Inl e
      | Inr parsed_degrees \<Rightarrow>
     (case parse_default_value default_pad_value of
        Inl e \<Rightarrow> Inl e
      | Inr parsed_pad \<Rightarrow>
     (case parse_interpolation super image_interpolation of
        Inl e \<Rightarrow> Inl e
      | Inr parsed_interpolation \<Rightarrow>
          Inr \<lparr>self_base = b, self_scales = scales, self_degrees = parsed_degrees,
               self_isotropic = isotropic, self_default_pad_value = parsed_pad,
               self_interpolation = parsed_interpolation\<rparr>))))"

text \<open>
  A base class that accepts everything: the constructor stores nothing of interest,
  a single bound \<open>d\<close> becomes the range from \<open>-d\<close> to \<open>d\<close>, a pair is kept.
\<close>

definition permissive_base :: "unit base_class" where
  "permissive_base =
     \<lparr>base_init = (\<lambda>p seed. Inr ()),
      parse_degrees = (\<lambda>d. case d of Single x \<Rightarrow> Inr (- x, x) | Range a b \<Rightarrow> Inr (a, b)),
      parse_interpolation = Inr\<rparr>"

subsection \<open>Resampling one volume: \<^verbatim>\<open>apply_affine_transform\<close>\<close>

text \<open>
  A tensor is its element type and its data: a list of channels, each a 3D array, so
  \<^verbatim>\<open>tensor.ndim == 4\<close> holds by type. A SimpleITK image is its array view, its pixel
  type and its geometry. The resampler is the record of what lines 171 to 176 set.
\<close>

datatype dtype = Float32 | Float64 | Int16 | UInt8

record tensor =
  dtype :: dtype
  data :: "array3 list"

record image =
  array_view :: array3
  pixel_type :: dtype
  geometry :: affine

record resampler =
  interpolator :: Interpolation
  reference_image :: image
  default_pixel_value :: real
  output_pixel_type :: dtype
  resampler_transform :: CompositeTransform

text \<open>
  What the function calls outside the repository: \<^verbatim>\<open>nib_to_sitk\<close> of the base class,
  the Otsu threshold, the pixel values \<^verbatim>\<open>resampler.Execute\<close> computes (in array-view
  order), and the conversion of a value to an element type that a copy into a tensor
  performs.
\<close>

record externals =
  nib_to_sitk :: "array3 \<Rightarrow> affine \<Rightarrow> image"
  OtsuThreshold :: "real list \<Rightarrow> error + real"
  Execute :: "resampler \<Rightarrow> image \<Rightarrow> array3"
  convert :: "dtype \<Rightarrow> real \<Rightarrow> real"

text \<open>\<^verbatim>\<open>tensor.min().item()\<close>; the library refuses a tensor with no element.\<close>

definition tensor_min :: "tensor \<Rightarrow> error + real" where
  "tensor_min t =
     (case concat (concat (concat (data t))) of
        [] \<Rightarrow> Inl LibraryError
      | x # xs \<Rightarrow> Inr (fold min xs x))"

text \<open>
  Lines 162 to 169 and the \<^verbatim>\<open>float(default_value)\<close> of line 174. A string other than
  the three names cannot come out of the constructor; \<^verbatim>\<open>float\<close> of one is an error.
\<close>

definition default_value_of :: "externals \<Rightarrow> pad_value \<Rightarrow> tensor \<Rightarrow> image \<Rightarrow> error + real" where
  "default_value_of ext pad t img =
     (if pad = Str ''minimum'' then tensor_min t
      else if pad = Str ''mean'' then get_borders_mean (OtsuThreshold ext) (array_view img) False
      else if pad = Str ''otsu'' then get_borders_mean (OtsuThreshold ext) (array_view img) True
      else (case pad of Number n \<Rightarrow> Inr n | Str s \<Rightarrow> Inl ValueError))"

text \<open>\<^verbatim>\<open>np_array.transpose()\<close>: the three axes in reverse order.\<close>

definition transpose3 :: "array3 \<Rightarrow> array3" where
  "transpose3 a = map transpose (transpose (map transpose a))"

text \<open>
  Lines 171 to 176. \<^verbatim>\<open>get_sitk_interpolator\<close> translates the enumeration into the
  library's constant; the record keeps the enumeration's member.
\<close>

definition make_resampler :: "Interpolation \<Rightarrow> image \<Rightarrow> real \<Rightarrow> CompositeTransform \<Rightarrow> resampler" where
  "make_resampler interpolation reference default_value transform =
     \<lparr>interpolator = interpolation, reference_image = reference,
      default_pixel_value = default_value, output_pixel_type = Float32,
      resampler_transform = transform\<rparr>"

text \<open>
  The image \<^verbatim>\<open>resampler.Execute(floating)\<close> returns: the computed pixels, with the pixel
  type the resampler was given, on the grid of the reference image.
\<close>

definition resample :: "externals \<Rightarrow> resampler \<Rightarrow> image \<Rightarrow> image" where
  "resample ext r floating =
     \<lparr>array_view = Execute ext r floating, pixel_type = output_pixel_type r,
      geometry = geometry (reference_image r)\<rparr>"

text \<open>
  \<^verbatim>\<open>tensor[0] = torch.from_numpy(np_array)\<close> writes into the tensor in place: the values
  are converted to the element type of the tensor written into, which keeps its type.
\<close>

definition setitem0 :: "externals \<Rightarrow> tensor \<Rightarrow> array3 \<Rightarrow> tensor" where
  "setitem0 ext t np_array =
     t\<lparr>data := (data t)[0 := map (map (map (convert ext (dtype t)))) np_array]\<rparr>"

definition apply_affine_transform ::
  "externals \<Rightarrow> 'b RandomAffine \<Rightarrow> tensor \<Rightarrow> affine \<Rightarrow> real list \<Rightarrow> real list \<Rightarrow> Interpolation \<Rightarrow>
   error + tensor" where
  "apply_affine_transform ext self t A scaling_params rotation_params interpolation =
     (if length (data t) \<noteq> 1 then Inl AssertionError
      else
        let img = nib_to_sitk ext (data t ! 0) A;
            floating = img;
            reference = img
        in
        (case build_transform scaling_params rotation_params of
           Inl e \<Rightarrow> Inl e
         | Inr transform \<Rightarrow>
        (case default_value_of ext (self_default_pad_value self) t img of
           Inl e \<Rightarrow> Inl e
         | Inr default_value \<Rightarrow>
             let r = make_resampler interpolation reference default_value transform;
                 resampled = resample ext r floating;
                 np_array = transpose3 (array_view resampled)
             in Inr (setitem0 ext t np_array))))"

subsection \<open>One application to a subject: \<^verbatim>\<open>apply_transform\<close>\<close>

text \<open>
  A subject is a dictionary, kept with its insertion order: each value is an image record
  (\<^verbatim>\<open>is_image_dict\<close>) or something else. The role of an image is the tag of the
  specification's data model, Intensity or Label.
\<close>

datatype image_type = INTENSITY | LABEL

record image_dict =
  DATA :: tensor
  AFFINE :: affine
  TYPE' :: image_type

datatype entry = ImageDict image_dict | Params "real list" | Metadata string

type_synonym subject = "(string \<times> entry) list"

text \<open>\<^verbatim>\<open>sample[key] = v\<close>: replaces the value of a key that exists, appends a new key.\<close>

fun dict_set :: "subject \<Rightarrow> string \<Rightarrow> entry \<Rightarrow> subject" where
  "dict_set [] key v = [(key, v)]"
| "dict_set ((k, e) # kvs) key v =
     (if k = key then (k, v) # kvs else (k, e) # dict_set kvs key v)"

definition first_or_empty :: "'a list list \<Rightarrow> 'a list" where
  "first_or_empty xs = (case xs of [] \<Rightarrow> [] | x # _ \<Rightarrow> x)"

definition tensor_shape :: "tensor \<Rightarrow> nat list" where
  "tensor_shape t =
     (let planes = first_or_empty (data t);
          rows = first_or_empty planes;
          cells = first_or_empty rows
      in [length (data t), length planes, length rows, length cells])"

definition image_shapes :: "subject \<Rightarrow> nat list list" where
  "image_shapes sample =
     concat (map (\<lambda>(k, e). case e of ImageDict d \<Rightarrow> [tensor_shape (DATA d)] | _ \<Rightarrow> []) sample)"

text \<open>
  Modelled from the spec: \<^verbatim>\<open>Subject.check_consistent_shape\<close>, a method of the subject
  container, is not part of the file. The specification: all volumes of the subject must
  share one shape, and a mismatch is a fatal failure. It reads the subject and changes
  nothing.
\<close>

definition check_consistent_shape :: "subject \<Rightarrow> error + unit" where
  "check_consistent_shape sample =
     (if length (remdups (image_shapes sample)) \<le> 1 then Inr () else Inl ShapeError)"

text \<open>
  The loop of lines 94 to 107 over the values of the subject, where \<open>f\<close> is the body for
  one image record. An error leaves the loop at once: the records before it are already
  replaced, the rest is untouched.
\<close>

fun transform_images ::
  "(image_dict \<Rightarrow> error + image_dict) \<Rightarrow> subject \<Rightarrow> error option \<times> subject" where
  "transform_images f [] = (None, [])"
| "transform_images f ((k, ImageDict d) # kvs) =
     (case f d of
        Inl e \<Rightarrow> (Some e, (k, ImageDict d) # kvs)
      | Inr d' \<Rightarrow>
          (let (r, kvs') = transform_images f kvs in (r, (k, ImageDict d') # kvs')))"
| "transform_images f ((k, other) # kvs) =
     (let (r, kvs') = transform_images f kvs in (r, (k, other) # kvs'))"

text \<open>The body of the loop: lines 97 to 107.\<close>

definition transform_image ::
  "externals \<Rightarrow> 'b RandomAffine \<Rightarrow> real list \<Rightarrow> real list \<Rightarrow> image_dict \<Rightarrow> error + image_dict" where
  "transform_image ext self scaling_params rotation_params d =
     (let interpolation = (if TYPE' d = LABEL then NEAREST else self_interpolation self)
      in case apply_affine_transform ext self (DATA d) (AFFINE d)
                scaling_params rotation_params interpolation of
           Inl e \<Rightarrow> Inl e
         | Inr t \<Rightarrow> Inr (d\<lparr>DATA := t\<rparr>))"

text \<open>
  \<^verbatim>\<open>apply_transform\<close> on the state it touches, the subject and the random source. The
  result is the error raised, if any, and the state as the call leaves it.
\<close>

definition apply_transform ::
  "externals \<Rightarrow> 'b RandomAffine \<Rightarrow> subject \<times> generator \<Rightarrow> error option \<times> subject \<times> generator" where
  "apply_transform ext self st =
     (let (sample, g) = st in
      case check_consistent_shape sample of
        Inl e \<Rightarrow> (Some e, sample, g)
      | Inr _ \<Rightarrow>
          let ((scaling_params, rotation_params), g') =
                get_params (self_scales self) (self_degrees self) (self_isotropic self) g;
              sample = dict_set sample ''random_scaling'' (Params scaling_params);
              sample = dict_set sample ''random_rotation'' (Params rotation_params);
              (r, sample) =
                transform_images (transform_image ext self scaling_params rotation_params) sample
          in (r, sample, g'))"

subsection \<open>Concrete inputs\<close>

text \<open>
  Externals that do as little as possible: the image holds the transposed array, the
  resampler returns the pixels of the image it is given, and a conversion keeps the value.
  The transform \<open>fixed_pad\<close> scales by 1, rotates by 0 degrees and pads with the number 0.
\<close>

definition identity_externals :: externals where
  "identity_externals =
     \<lparr>nib_to_sitk = (\<lambda>a A. \<lparr>array_view = transpose3 a, pixel_type = Float64, geometry = A\<rparr>),
      OtsuThreshold = (\<lambda>bs. Inr 0),
      Execute = (\<lambda>r img. array_view img),
      convert = (\<lambda>ty x. x)\<rparr>"

definition fixed_pad :: "unit RandomAffine" where
  "fixed_pad =
     \<lparr>self_base = (), self_scales = (1, 1), self_degrees = (0, 0), self_isotropic = False,
      self_default_pad_value = Number 0, self_interpolation = LINEAR\<rparr>"

text \<open>A one-channel tensor of shape 1x1x1xn from one row of values.\<close>

definition voxel :: "dtype \<Rightarrow> real list \<Rightarrow> tensor" where
  "voxel ty row = \<lparr>dtype = ty, data = [[[row]]]\<rparr>"

text \<open>
  Externals whose resampler shows which interpolator it was given: with the nearest
  neighbour it returns the pixels of the image, with any other it adds one half to each.
\<close>

definition marking_externals :: externals where
  "marking_externals =
     \<lparr>nib_to_sitk = (\<lambda>a A. \<lparr>array_view = transpose3 a, pixel_type = Float64, geometry = A\<rparr>),
      OtsuThreshold = (\<lambda>bs. Inr 0),
      Execute = (\<lambda>r img. if interpolator r = NEAREST then array_view img
                           else map (map (map (\<lambda>x. x + 1 / 2))) (array_view img)),
      convert = (\<lambda>ty x. x)\<rparr>"

definition paired_subject :: subject where
  "paired_subject =
     [(''t1'', ImageDict \<lparr>DATA = voxel Float32 [1], AFFINE = identity_affine, TYPE' = INTENSITY\<rparr>),
      (''seg'', ImageDict \<lparr>DATA = voxel Float32 [1], AFFINE = identity_affine, TYPE' = LABEL\<rparr>)]"

definition mismatched_subject :: subject where
  "mismatched_subject =
     [(''t1'', ImageDict \<lparr>DATA = voxel Float32 [1], AFFINE = identity_affine, TYPE' = INTENSITY\<rparr>),
      (''seg'', ImageDict \<lparr>DATA = voxel Float32 [1, 2], AFFINE = identity_affine, TYPE' = LABEL\<rparr>)]"

definition half :: generator where
  "half = (\<lambda>i. 1 / 2)"

section \<open>Properties of the border statistics\<close>

lemma get_borders_volume3:
  "get_borders (volume3 a b) =
     Inr (concat (map flatten
       [plane3 a, plane3 b, plane3 a, plane3 b,
        [[a, a, a], [b, b, b], [b, b, b]], [[a, a, a], [b, b, b], [b, b, b]],
        [[a, a, a], [b, b, b], [b, b, b]], [[a, a, a], [b, b, b], [b, b, b]]]))"
  by (simp add: get_borders_def border_slabs_def np_array_of_def volume3_def plane3_def)

lemma np_mean_replicate: "0 < n \<Longrightarrow> np_mean (replicate n c) = c"
  by (simp add: np_mean_def sum_list_replicate)

lemma get_borders_view334: "get_borders (view334 a) = Inl ValueError"
  by (simp add: get_borders_def border_slabs_def np_array_of_def view334_def eval_nat_numeral)

text \<open>
  C2. The specification takes the unfiltered border mean over six face slabs, each face
  once. The source lists eight slices: \<^verbatim>\<open>array[0]\<close> and \<^verbatim>\<open>array[0, :, :]\<close> are the same
  face, and so are \<^verbatim>\<open>array[-1]\<close> and \<^verbatim>\<open>array[-1, :, :]\<close>, so the two faces of axis 0
  weigh twice. On the 3x3x3 volume whose first plane is 1 and the rest 0 the function
  returns 30/72 = 5/12, where the mean of the six faces is 21/54 = 7/18.
\<close>

theorem borders_mean_counts_axis0_faces_twice:
  "get_borders_mean otsu (volume3 1 0) False = Inr (5 / 12) \<and>
   spec_border_mean (volume3 1 0) = 7 / 18"
  by (simp add: get_borders_mean_def get_borders_def border_slabs_def np_array_of_def volume3_def
      plane3_def spec_border_mean_def six_faces_def np_mean_def flatten_def)

text \<open>
  What the guard of lines 206 to 209 does once the border values exist and the Otsu
  filter has returned a threshold: when no border value lies strictly below the
  threshold, the result is the mean of the unfiltered border values, with and without
  \<open>filter_otsu\<close>.
\<close>

lemma fallback_when_none_below:
  assumes "get_borders array = Inr borders"
    and "otsu borders = Inr threshold"
    and "\<forall>v\<in>set borders. \<not> v < threshold"
  shows "get_borders_mean otsu array True = Inr (np_mean borders) \<and>
         get_borders_mean otsu array False = Inr (np_mean borders)"
proof -
  from assms(3) have "filter (\<lambda>v. v < threshold) borders = []"
    by (simp add: filter_empty_conv)
  with assms(1,2) show ?thesis
    by (simp add: get_borders_mean_def)
qed

text \<open>
  C6. The specification wants the unfiltered border mean, and no failure, on a border
  set with no value below the Otsu threshold, a border of one intensity among them. The
  source stacks the eight slices with \<^verbatim>\<open>np.array\<close> before it does anything else, and
  that raises \<^verbatim>\<open>ValueError\<close> when the slices differ in shape. On a view of shape
  (3, 3, 4) filled with one intensity the function raises, whatever the Otsu filter
  would return, where the claim gives that intensity.
\<close>

theorem borders_mean_raises_on_uniform_view334:
  "get_borders_mean otsu (view334 5) True = Inl ValueError"
  by (simp add: get_borders_mean_def get_borders_view334)

text \<open>
  C10. With \<open>filter_otsu\<close> set, once the border values exist and the Otsu filter has
  returned a threshold: the function returns the mean of the values strictly below the
  threshold when one of them is not zero, and the mean of the unfiltered border values
  otherwise. So when some border values lie below the threshold and all of them are zero,
  it returns the mean of the unfiltered border values, not the mean of the filtered ones:
  the fallback is taken when no nonzero value lies below the threshold.
\<close>

theorem otsu_fallback_on_all_zero_filter:
  assumes "get_borders array = Inr borders"
    and "otsu borders = Inr threshold"
  shows "get_borders_mean otsu array True =
           Inr (if list_ex (\<lambda>v. v < threshold \<and> v \<noteq> 0) borders
                then np_mean (filter (\<lambda>v. v < threshold) borders)
                else np_mean borders) \<and>
         (filter (\<lambda>v. v < threshold) borders \<noteq> [] \<and>
          (\<forall>v\<in>set borders. v < threshold \<longrightarrow> v = 0) \<longrightarrow>
            get_borders_mean otsu array True = Inr (np_mean borders))"
  using assms by (auto simp add: get_borders_mean_def Let_def list_ex_iff)

text \<open>
  On the 3x3x3 volume whose first plane is 0 and the rest 6, with threshold 3, the values
  below the threshold are the zeros of that plane (their mean is 0) and the function
  returns 252/72 = 7/2. With the first plane 2 instead, the values below the threshold
  are not zero and the function returns their mean, 2.
\<close>

theorem otsu_fallback_on_all_zero_filter_witness:
  "get_borders_mean (\<lambda>bs. Inr 3) (volume3 0 6) True = Inr (7 / 2) \<and>
   get_borders_mean (\<lambda>bs. Inr 3) (volume3 2 6) True = Inr 2"
proof -
  define borders where "borders a = concat (map flatten
       [plane3 a, plane3 6, plane3 a, plane3 6,
        [[a, a, a], [6, 6, 6], [6, 6, 6]], [[a, a, a], [6, 6, 6], [6, 6, 6]],
        [[a, a, a], [6, 6, 6], [6, 6, 6]], [[a, a, a], [6, 6, 6], [6, 6, 6]]])" for a :: real
  have g: "get_borders (volume3 a 6) = Inr (borders a)" for a
    by (simp add: get_borders_volume3 borders_def)
  have o: "(\<lambda>bs. Inr 3) (borders a) = (Inr 3 :: error + real)" for a
    by simp
  have z: "\<not> list_ex (\<lambda>v. v < 3 \<and> v \<noteq> 0) (borders 0)"
    by (simp add: borders_def plane3_def flatten_def)
  have m: "np_mean (borders 0) = 7 / 2"
    by (simp add: borders_def plane3_def flatten_def np_mean_def)
  have n: "list_ex (\<lambda>v. v < 3 \<and> v \<noteq> 0) (borders 2)"
    by (simp add: borders_def plane3_def flatten_def)
  have f: "np_mean (filter (\<lambda>v. v < 3) (borders 2)) = 2"
    by (simp add: borders_def plane3_def flatten_def np_mean_def)
  from otsu_fallback_on_all_zero_filter [OF g o, of 0] z m
  have "get_borders_mean (\<lambda>bs. Inr 3) (volume3 0 6) True = Inr (7 / 2)"
    by simp
  moreover from otsu_fallback_on_all_zero_filter [OF g o, of 2] n f
  have "get_borders_mean (\<lambda>bs. Inr 3) (volume3 2 6) True = Inr 2"
    by simp
  ultimately show ?thesis by simp
qed

section \<open>Properties of the sampler and of the transforms\<close>

text \<open>
  C9. With \<open>isotropic\<close> set, the three scaling parameters returned are equal, and each
  is the first of the three uniform draws (not their mean).
\<close>

theorem isotropic_repeats_first_draw:
  "fst (fst (get_params scales degrees True g)) =
     replicate 3 (hd (fst (uniform_inplace 3 (fst scales) (snd scales) g))) \<and>
   hd (fst (uniform_inplace 3 (fst scales) (snd scales) g)) =
     fst scales + g 0 * (snd scales - fst scales)"
  by (simp add: get_params_def uniform_inplace_def fill_inplace_def Let_def eval_nat_numeral
      upt_rec split_def)

text \<open>
  C5. For positive scaling parameters \<open>s1\<close>, \<open>s2\<close>, \<open>s3\<close> the scale transform built
  from them holds the factors \<open>1 / s1\<close>, \<open>1 / s2\<close>, \<open>1 / s3\<close>, all positive, and maps a
  point by dividing its coordinate on axis \<open>i\<close> by \<open>si\<close>.
\<close>

theorem scaling_transform_inverts_params:
  assumes "0 < s1" "0 < s2" "0 < s3"
  shows "get_scaling_transform [s1, s2, s3] =
           Inr \<lparr>scale = (1 / s1, 1 / s2, 1 / s3), scale_center = (0, 0, 0)\<rparr> \<and>
         scale_point \<lparr>scale = (1 / s1, 1 / s2, 1 / s3), scale_center = (0, 0, 0)\<rparr> (x, y, z) =
           (x / s1, y / s2, z / s3) \<and>
         0 < 1 / s1 \<and> 0 < 1 / s2 \<and> 0 < 1 / s3"
  using assms
  by (simp add: get_scaling_transform_def SetScale_def new_ScaleTransform_def scale_point_def)

theorem scaling_transform_inverts_params_witness:
  "get_scaling_transform [2, 4, 1 / 2] =
     Inr \<lparr>scale = (1 / 2, 1 / 4, 2), scale_center = (0, 0, 0)\<rparr> \<and>
   scale_point \<lparr>scale = (1 / 2, 1 / 4, 2), scale_center = (0, 0, 0)\<rparr> (8, 8, 8) = (4, 2, 16)"
  using scaling_transform_inverts_params [of 2 4 "1 / 2" 8 8 8] by simp

lemma build_transform_centers:
  "build_transform scaling_params rotation_params = Inr t \<Longrightarrow>
     rotation_center (rotation_transform t) = (0, 0, 0) \<and>
     scale_center (scaling_transform t) = (0, 0, 0)"
  by (auto simp add: build_transform_def get_scaling_transform_def get_rotation_transform_def
      SetScale_def SetRotation_def new_ScaleTransform_def new_Euler3DTransform_def
      split: sum.splits list.splits)

text \<open>
  C1. The docstring of the class says that rotations are performed around the center of
  the image, and so does the specification. The source builds the rotation with its
  default center, the physical origin, and never moves it: no part of the transform
  depends on the image. A 3x3x3 volume with the identity as its affine map has its center
  at (1, 1, 1); the transform for no scaling and a rotation of 180 degrees about the third
  axis has its center at (0, 0, 0) and sends the center of the volume to (-1, -1, 1).
\<close>

theorem rotation_center_is_origin:
  "map_sum id (\<lambda>t. rotation_center (rotation_transform t))
     (build_transform [1, 1, 1] [0, 0, 180]) = Inr (0, 0, 0) \<and>
   spec_volume_center (3, 3, 3) identity_affine = (1, 1, 1) \<and>
   map_sum id (\<lambda>t. TransformPoint t (spec_volume_center (3, 3, 3) identity_affine))
     (build_transform [1, 1, 1] [0, 0, 180]) = Inr (- 1, - 1, 1)"
  by (simp add: build_transform_def get_scaling_transform_def get_rotation_transform_def
      SetScale_def SetRotation_def new_ScaleTransform_def new_Euler3DTransform_def radians_def
      spec_volume_center_def identity_affine_def dot_def TransformPoint_def scale_point_def
      rotate_point_def rot_x_def rot_y_def rot_z_def)

section \<open>Properties of the construction\<close>

text \<open>
  C3 as stated fails: the constructor stores the scale range without looking at it, so a
  range with low above high is accepted. Here the range (2, 1) is stored as given.
\<close>

theorem init_accepts_reversed_scales:
  "RandomAffine_init permissive_base (2, 1) (Single 10) False (Str ''otsu'') LINEAR 1 None =
     Inr \<lparr>self_base = (), self_scales = (2, 1), self_degrees = (- 10, 10),
          self_isotropic = False, self_default_pad_value = Str ''otsu'',
          self_interpolation = LINEAR\<rparr>"
  by (simp add: RandomAffine_init_def permissive_base_def parse_default_value_def)

text \<open>
  C3, amended. Construction does not look at the scale range. It fails exactly when the
  base constructor, \<^verbatim>\<open>parse_degrees\<close>, \<^verbatim>\<open>parse_default_value\<close> or
  \<^verbatim>\<open>parse_interpolation\<close> fails, none of which is given the range, and
  \<^verbatim>\<open>parse_default_value\<close> fails exactly on a string other than the three names. When
  construction succeeds the range is stored as given, and construction with any other
  range, ordered or not, succeeds with the same object but for the stored range.
\<close>

theorem init_ignores_scale_range:
  "(isl (RandomAffine_init super scales degrees isotropic pad interp p seed) \<longleftrightarrow>
      isl (base_init super p seed) \<or> isl (parse_degrees super degrees) \<or>
      isl (parse_default_value pad) \<or> isl (parse_interpolation super interp)) \<and>
   (isl (parse_default_value pad) \<longleftrightarrow>
      (case pad of Number n \<Rightarrow> False
       | Str s \<Rightarrow> s \<noteq> ''minimum'' \<and> s \<noteq> ''otsu'' \<and> s \<noteq> ''mean'')) \<and>
   (\<forall>self. RandomAffine_init super scales degrees isotropic pad interp p seed = Inr self \<longrightarrow>
      self_scales self = scales \<and>
      RandomAffine_init super scales2 degrees isotropic pad interp p seed =
        Inr (self\<lparr>self_scales := scales2\<rparr>))"
proof (intro conjI allI impI)
  show "isl (RandomAffine_init super scales degrees isotropic pad interp p seed) \<longleftrightarrow>
      isl (base_init super p seed) \<or> isl (parse_degrees super degrees) \<or>
      isl (parse_default_value pad) \<or> isl (parse_interpolation super interp)"
    by (simp add: RandomAffine_init_def split: sum.splits)
next
  show "isl (parse_default_value pad) \<longleftrightarrow>
      (case pad of Number n \<Rightarrow> False
       | Str s \<Rightarrow> s \<noteq> ''minimum'' \<and> s \<noteq> ''otsu'' \<and> s \<noteq> ''mean'')"
    by (simp add: parse_default_value_def split: pad_value.splits)
next
  fix self
  assume "RandomAffine_init super scales degrees isotropic pad interp p seed = Inr self"
  then show "self_scales self = scales"
    by (auto simp add: RandomAffine_init_def split: sum.splits)
next
  fix self
  assume "RandomAffine_init super scales degrees isotropic pad interp p seed = Inr self"
  then show "RandomAffine_init super scales2 degrees isotropic pad interp p seed =
      Inr (self\<lparr>self_scales := scales2\<rparr>)"
    by (auto simp add: RandomAffine_init_def split: sum.splits)
qed

text \<open>
  With the base class that accepts everything and the pad value \<^verbatim>\<open>'mean'\<close>, nothing
  fails: construction succeeds with the range (3, 2) and stores it.
\<close>

theorem init_ignores_scale_range_witness:
  "\<not> isl (RandomAffine_init permissive_base (3, 2) (Single 10) False (Str ''mean'') LINEAR 1 None) \<and>
   self_scales (projr (RandomAffine_init permissive_base (3, 2) (Single 10) False (Str ''mean'')
     LINEAR 1 None)) = (3, 2)"
proof -
  note t = init_ignores_scale_range [of permissive_base "(3, 2)" "Single 10" False
      "Str ''mean''" LINEAR 1 None "(3, 2)"]
  from t have ok:
    "\<not> isl (RandomAffine_init permissive_base (3, 2) (Single 10) False (Str ''mean'') LINEAR 1 None)"
    by (simp add: permissive_base_def)
  then obtain self where
    s: "RandomAffine_init permissive_base (3, 2) (Single 10) False (Str ''mean'') LINEAR 1 None =
          Inr self"
    by (cases "RandomAffine_init permissive_base (3, 2) (Single 10) False (Str ''mean'') LINEAR 1 None")
      auto
  with t have "self_scales self = (3, 2)"
    by blast
  with ok s show ?thesis by simp
qed

section \<open>Properties of the resampling of one volume\<close>

lemma apply_voxel:
  "apply_affine_transform identity_externals fixed_pad (voxel ty [v]) identity_affine
     [1, 1, 1] [0, 0, 0] i = Inr (voxel ty [v])"
  by (simp add: apply_affine_transform_def voxel_def build_transform_def
      get_scaling_transform_def get_rotation_transform_def SetScale_def SetRotation_def
      new_ScaleTransform_def new_Euler3DTransform_def default_value_of_def fixed_pad_def
      identity_externals_def Let_def setitem0_def resample_def make_resampler_def
      transpose3_def)

text \<open>
  C4 as stated fails: the result is written into the tensor that came in, which keeps its
  element type. A double-precision tensor comes back in double precision.
\<close>

theorem float64_tensor_stays_float64:
  "map_sum id dtype
     (apply_affine_transform identity_externals fixed_pad (voxel Float64 [7]) identity_affine
        [1, 1, 1] [0, 0, 0] LINEAR) = Inr Float64"
  by (simp add: apply_affine_transform_def voxel_def build_transform_def
      get_scaling_transform_def get_rotation_transform_def SetScale_def SetRotation_def
      new_ScaleTransform_def new_Euler3DTransform_def default_value_of_def fixed_pad_def
      identity_externals_def Let_def setitem0_def resample_def make_resampler_def
      transpose3_def)

text \<open>
  C4, amended. Whatever the element type of the tensor, the resampled image is produced
  with single-precision pixels; it is then written into channel 0 of the tensor in place,
  and the tensor returned has the element type of the tensor that came in.
\<close>

theorem result_keeps_tensor_dtype:
  assumes "apply_affine_transform ext self t A sc rot interp = Inr t'"
  shows "dtype t' = dtype t \<and>
    (\<exists>dv tr.
       pixel_type (resample ext (make_resampler interp (nib_to_sitk ext (data t ! 0) A) dv tr)
                     (nib_to_sitk ext (data t ! 0) A)) = Float32 \<and>
       t' = setitem0 ext t (transpose3 (array_view
              (resample ext (make_resampler interp (nib_to_sitk ext (data t ! 0) A) dv tr)
                 (nib_to_sitk ext (data t ! 0) A)))))"
proof -
  let ?img = "nib_to_sitk ext (data t ! 0) A"
  from assms obtain tr dv where
    t': "t' = setitem0 ext t
           (transpose3 (array_view (resample ext (make_resampler interp ?img dv tr) ?img)))"
    by (auto simp add: apply_affine_transform_def Let_def split: if_splits sum.splits)
  have "pixel_type (resample ext (make_resampler interp ?img dv tr) ?img) = Float32"
    by (simp add: resample_def make_resampler_def)
  moreover from t' have "dtype t' = dtype t"
    by (simp add: setitem0_def)
  ultimately show ?thesis using t' by blast
qed

theorem result_keeps_tensor_dtype_witness:
  "\<exists>t'. apply_affine_transform identity_externals fixed_pad (voxel Int16 [7]) identity_affine
           [1, 1, 1] [0, 0, 0] LINEAR = Inr t' \<and> dtype t' = Int16"
  using result_keeps_tensor_dtype [OF apply_voxel [of Int16 7 LINEAR]]
    apply_voxel [of Int16 7 LINEAR]
  by (simp add: voxel_def)

section \<open>Properties of one application to a subject\<close>

lemma map_of_dict_set: "map_of (dict_set s k v) = (map_of s)(k \<mapsto> v)"
  by (induction s k v rule: dict_set.induct) auto

lemma transform_images_lookup:
  "transform_images f s = (None, s') \<Longrightarrow> map_of s key = Some (ImageDict d) \<Longrightarrow>
     \<exists>d'. f d = Inr d' \<and> map_of s' key = Some (ImageDict d')"
  by (induction f s arbitrary: s' rule: transform_images.induct)
    (auto split: sum.splits prod.splits if_splits)

lemma get_params_fixed:
  "get_params (self_scales fixed_pad) (self_degrees fixed_pad) (self_isotropic fixed_pad) g =
     (([1, 1, 1], [0, 0, 0]), \<lambda>i. g (i + 3 + 3))"
  by (simp add: get_params_def fixed_pad_def uniform_inplace_def Let_def eval_nat_numeral upt_rec)

lemma apply_voxel_marking:
  "apply_affine_transform marking_externals fixed_pad (voxel ty [v]) identity_affine
     [1, 1, 1] [0, 0, 0] i = Inr (voxel ty [if i = NEAREST then v else v + 1 / 2])"
  by (simp add: apply_affine_transform_def voxel_def build_transform_def
      get_scaling_transform_def get_rotation_transform_def SetScale_def SetRotation_def
      new_ScaleTransform_def new_Euler3DTransform_def default_value_of_def fixed_pad_def
      marking_externals_def Let_def setitem0_def resample_def make_resampler_def
      transpose3_def)

lemma apply_transform_paired_subject:
  "fst (apply_transform marking_externals fixed_pad (paired_subject, half)) = None"
  by (simp add: apply_transform_def check_consistent_shape_def image_shapes_def
      paired_subject_def get_params_fixed transform_image_def Let_def tensor_shape_def
      first_or_empty_def voxel_def apply_voxel_marking [unfolded voxel_def])

lemma apply_affine_transform_result:
  assumes "apply_affine_transform ext self t A sc rot i = Inr t'"
  shows "\<exists>dv tr.
           build_transform sc rot = Inr tr \<and>
           default_value_of ext (self_default_pad_value self) t (nib_to_sitk ext (data t ! 0) A) =
             Inr dv \<and>
           t' = setitem0 ext t (transpose3 (Execute ext
                  \<lparr>interpolator = i, reference_image = nib_to_sitk ext (data t ! 0) A,
                   default_pixel_value = dv, output_pixel_type = Float32,
                   resampler_transform = tr\<rparr>
                  (nib_to_sitk ext (data t ! 0) A)))"
  using assms
  by (auto simp add: apply_affine_transform_def Let_def resample_def make_resampler_def
      split: if_splits sum.splits)

text \<open>
  C7. After a successful application, every image record of the subject holds the pixels
  that the library's resampler computed from the record's own image with the parameters
  sampled in this call, and the interpolator that resampler was given is the nearest
  neighbour if the type of the record is Label, the configured interpolation otherwise.
  (The two keys the call itself writes are not image records afterwards.)
\<close>

theorem label_forces_nearest:
  assumes "apply_transform ext self (sample, g) = (None, sample', g')"
    and "map_of sample key = Some (ImageDict d)"
    and "key \<noteq> ''random_scaling''" and "key \<noteq> ''random_rotation''"
  shows "\<exists>dv tr.
          build_transform
            (fst (fst (get_params (self_scales self) (self_degrees self) (self_isotropic self) g)))
            (snd (fst (get_params (self_scales self) (self_degrees self) (self_isotropic self) g)))
            = Inr tr \<and>
          default_value_of ext (self_default_pad_value self) (DATA d)
            (nib_to_sitk ext (data (DATA d) ! 0) (AFFINE d)) = Inr dv \<and>
          map_of sample' key = Some (ImageDict (d\<lparr>DATA :=
            setitem0 ext (DATA d) (transpose3 (Execute ext
              \<lparr>interpolator = (if TYPE' d = LABEL then NEAREST else self_interpolation self),
               reference_image = nib_to_sitk ext (data (DATA d) ! 0) (AFFINE d),
               default_pixel_value = dv, output_pixel_type = Float32,
               resampler_transform = tr\<rparr>
              (nib_to_sitk ext (data (DATA d) ! 0) (AFFINE d))))\<rparr>))"
proof -
  obtain sc rot g1 where
    gp: "get_params (self_scales self) (self_degrees self) (self_isotropic self) g =
           ((sc, rot), g1)"
    by (metis prod.exhaust)
  let ?s2 = "dict_set (dict_set sample ''random_scaling'' (Params sc))
               ''random_rotation'' (Params rot)"
  from assms(1) gp have
    ti: "transform_images (transform_image ext self sc rot) ?s2 = (None, sample')"
    by (auto simp add: apply_transform_def Let_def split: sum.splits prod.splits)
  from assms(2,3,4) have "map_of ?s2 key = Some (ImageDict d)"
    by (simp add: map_of_dict_set)
  from transform_images_lookup [OF ti this] obtain d' where
    d': "transform_image ext self sc rot d = Inr d'" "map_of sample' key = Some (ImageDict d')"
    by blast
  from d'(1) obtain t' where
    t': "apply_affine_transform ext self (DATA d) (AFFINE d) sc rot
       (if TYPE' d = LABEL then NEAREST else self_interpolation self) = Inr t'"
    "d' = d\<lparr>DATA := t'\<rparr>"
    by (auto simp add: transform_image_def Let_def split: sum.splits)
  from apply_affine_transform_result [OF t'(1)] t'(2) d'(2) gp show ?thesis
    by auto
qed

text \<open>
  With the resampler that shows its interpolator and the configured interpolation linear:
  the label record comes back with its value 1, computed with the nearest neighbour, and
  the intensity record with 3/2, computed with the configured interpolation.
\<close>

theorem label_forces_nearest_witness:
  "map_of (fst (snd (apply_transform marking_externals fixed_pad (paired_subject, half))))
     ''seg'' = Some (ImageDict \<lparr>DATA = voxel Float32 [1], AFFINE = identity_affine,
                                 TYPE' = LABEL\<rparr>) \<and>
   map_of (fst (snd (apply_transform marking_externals fixed_pad (paired_subject, half))))
     ''t1'' = Some (ImageDict \<lparr>DATA = voxel Float32 [3 / 2], AFFINE = identity_affine,
                                TYPE' = INTENSITY\<rparr>)"
proof -
  have a: "apply_transform marking_externals fixed_pad (paired_subject, half) =
      (None, fst (snd (apply_transform marking_externals fixed_pad (paired_subject, half))),
             snd (snd (apply_transform marking_externals fixed_pad (paired_subject, half))))"
    using apply_transform_paired_subject by (metis prod.collapse)
  have seg: "map_of paired_subject ''seg'' =
      Some (ImageDict \<lparr>DATA = voxel Float32 [1], AFFINE = identity_affine, TYPE' = LABEL\<rparr>)"
    by (simp add: paired_subject_def)
  have t1: "map_of paired_subject ''t1'' =
      Some (ImageDict \<lparr>DATA = voxel Float32 [1], AFFINE = identity_affine, TYPE' = INTENSITY\<rparr>)"
    by (simp add: paired_subject_def)
  have k: "''seg'' \<noteq> ''random_scaling''" "''seg'' \<noteq> ''random_rotation''"
    "''t1'' \<noteq> ''random_scaling''" "''t1'' \<noteq> ''random_rotation''"
    by simp_all
  from label_forces_nearest [OF a seg k(1,2)]
  have "map_of (fst (snd (apply_transform marking_externals fixed_pad (paired_subject, half))))
     ''seg'' = Some (ImageDict \<lparr>DATA = voxel Float32 [1], AFFINE = identity_affine,
                                 TYPE' = LABEL\<rparr>)"
    by (auto simp add: voxel_def setitem0_def marking_externals_def transpose3_def)
  moreover from label_forces_nearest [OF a t1 k(3,4)]
  have "map_of (fst (snd (apply_transform marking_externals fixed_pad (paired_subject, half))))
     ''t1'' = Some (ImageDict \<lparr>DATA = voxel Float32 [3 / 2], AFFINE = identity_affine,
                                TYPE' = INTENSITY\<rparr>)"
    by (auto simp add: voxel_def setitem0_def fixed_pad_def marking_externals_def transpose3_def)
  ultimately show ?thesis by simp
qed

text \<open>
  C8. When two image records of the subject differ in shape, the application fails, and
  the state it leaves is the state it found: the same subject, with no key added and no
  data replaced, and the same random source, with no draw taken.
\<close>

theorem shape_mismatch_leaves_state:
  assumes "(k1, ImageDict d1) \<in> set sample" and "(k2, ImageDict d2) \<in> set sample"
    and "tensor_shape (DATA d1) \<noteq> tensor_shape (DATA d2)"
  shows "apply_transform ext self (sample, g) = (Some ShapeError, sample, g)"
proof -
  have in_shapes: "tensor_shape (DATA d) \<in> set (image_shapes sample)"
    if "(k, ImageDict d) \<in> set sample" for k d
    using that by (force simp add: image_shapes_def)
  have "\<not> card (set (image_shapes sample)) \<le> Suc 0"
    using in_shapes [OF assms(1)] in_shapes [OF assms(2)] assms(3)
    by (auto simp add: card_le_Suc0_iff_eq)
  then have "\<not> length (remdups (image_shapes sample)) \<le> 1"
    by (simp add: length_remdups_card_conv)
  then show ?thesis
    by (simp add: apply_transform_def check_consistent_shape_def)
qed

theorem shape_mismatch_leaves_state_witness:
  "apply_transform identity_externals fixed_pad (mismatched_subject, half) =
     (Some ShapeError, mismatched_subject, half)"
proof -
  have a: "(''t1'', ImageDict \<lparr>DATA = voxel Float32 [1], AFFINE = identity_affine,
              TYPE' = INTENSITY\<rparr>) \<in> set mismatched_subject"
    by (simp add: mismatched_subject_def)
  have b: "(''seg'', ImageDict \<lparr>DATA = voxel Float32 [1, 2], AFFINE = identity_affine,
              TYPE' = LABEL\<rparr>) \<in> set mismatched_subject"
    by (simp add: mismatched_subject_def)
  have c: "tensor_shape (DATA \<lparr>DATA = voxel Float32 [1], AFFINE = identity_affine,
              TYPE' = INTENSITY\<rparr>) \<noteq>
           tensor_shape (DATA \<lparr>DATA = voxel Float32 [1, 2], AFFINE = identity_affine,
              TYPE' = LABEL\<rparr>)"
    by (simp add: tensor_shape_def voxel_def first_or_empty_def)
  from shape_mismatch_leaves_state [OF a b c] show ?thesis .
qed

end
